theory Spec2Isabelle
  imports Main "HOL-Library.Word"
begin

unbundle bit_operations_syntax

section \<open>The mock character device driver customdevice.c\<close>

text \<open>
  The driver keeps one static object \<open>custom_dev\<close> and exposes \<open>open\<close>, \<open>release\<close> and
  \<open>ioctl\<close> to the kernel's file layer, plus \<open>custom_init\<close> and \<open>custom_exit\<close> for module
  load and unload. Every driver function is embedded as a function from the driver
  object to its return value, the updated driver object and the list of kernel calls it
  issued, in program order. The kernel itself is not part of the driver: each kernel
  service is given the small model stated next to it, and whatever the kernel decides
  (return codes of the registration calls, arrival of a signal during a wait) is an
  explicit argument.
\<close>

subsection \<open>Kernel types\<close>

type_synonym dev_t = "32 word"
type_synonym ptr = "64 word"
type_synonym file_ptr = nat

abbreviation NULL :: ptr where
  "NULL \<equiv> 0"

text \<open>Device numbers, as in the kernel's kdev_t.h: twenty minor bits below the major.\<close>

definition MINORBITS :: nat where
  "MINORBITS = 20"

definition MINORMASK :: dev_t where
  "MINORMASK = push_bit MINORBITS 1 - 1"

definition MAJOR :: "dev_t \<Rightarrow> 32 word" where
  "MAJOR d = drop_bit MINORBITS d"

definition MINOR :: "dev_t \<Rightarrow> 32 word" where
  "MINOR d = d AND MINORMASK"

definition MKDEV :: "32 word \<Rightarrow> 32 word \<Rightarrow> dev_t" where
  "MKDEV ma mi = push_bit MINORBITS ma OR mi"

text \<open>
  A pointer to a \<open>struct cdev\<close> is compared only with the address of the driver's own
  embedded cdev, so it is modelled by what it points to.
\<close>

datatype cdev_ptr = NULL_cdev | Addr_custom_dev_cdev | Addr_other_cdev nat

record inode =
  i_rdev :: dev_t
  i_cdev :: cdev_ptr

definition imajor :: "inode \<Rightarrow> 32 word" where
  "imajor i = MAJOR (i_rdev i)"

definition iminor :: "inode \<Rightarrow> 32 word" where
  "iminor i = MINOR (i_rdev i)"

text \<open>The calling task (\<open>current\<close>), of which the driver reads the name and the pid.\<close>

record task_struct =
  comm :: string
  pid :: int

datatype mutex = Unlocked | Locked

datatype module = THIS_MODULE

datatype fops_ptr = Addr_fops

record struct_cdev =
  owner :: "module option"
  ops :: "fops_ptr option"

subsection \<open>The driver object\<close>

record custom_dev_t =
  lock :: mutex
  cdev :: struct_cdev
  class_ptr :: ptr
  device_ptr :: ptr
  dev :: dev_t
  major :: "32 word"

text \<open>The static initialiser; the members it does not name are zero.\<close>

definition custom_dev :: custom_dev_t where
  "custom_dev =
     \<lparr>lock = Unlocked, cdev = \<lparr>owner = None, ops = None\<rparr>,
      class_ptr = NULL, device_ptr = NULL, dev = 0, major = 0\<rparr>"

subsection \<open>Kernel calls\<close>

text \<open>
  The lines the driver writes to the kernel log with \<open>printk\<close>, one constructor per
  format string, carrying the values printed:
  \<^item> \<open>Open_no_device mj mn\<close>: Error opening device %d:%d. Device doesn't exist.
  \<^item> \<open>Open_error mj mn\<close>: Error opening device %d:%d. (printed by two branches of open)
  \<^item> \<open>File_opened comm pid\<close>: [customdevice] File was opened by %s (pid %i).
  \<^item> \<open>Release_no_device mj mn\<close>: Error releasing device %d:%d. Device doesn't exist.
  \<^item> \<open>Release_internal mj mn\<close>: Error releasing device %d:%d. Internal error.
  \<^item> \<open>File_released\<close>: [customdevice] File was released.
  \<^item> \<open>Ioctl_called comm pid\<close>: [customdevice] The ioctl() was called by %s (pid %i).
  \<^item> \<open>Warn_alloc_chrdev_region\<close>, \<open>Warn_class_create\<close>, \<open>Warn_cdev_add\<close>,
    \<open>Warn_device_create\<close>: Warning: ... failed., one per registration call.
\<close>

datatype kmsg =
    Open_no_device "32 word" "32 word"
  | Open_error "32 word" "32 word"
  | File_opened string int
  | Release_no_device "32 word" "32 word"
  | Release_internal "32 word" "32 word"
  | File_released
  | Ioctl_called string int
  | Warn_alloc_chrdev_region
  | Warn_class_create
  | Warn_cdev_add
  | Warn_device_create

text \<open>
  One constructor per kernel service the driver calls, carrying the arguments that vary
  and, for the services that report one, the result. \<open>Mutex_destroy\<close> carries the state
  of the mutex it is handed.
\<close>

datatype kcall =
    Alloc_chrdev_region int
  | Class_create ptr
  | Cdev_init
  | Mutex_init
  | Cdev_add dev_t int
  | Device_create ptr dev_t ptr
  | Mutex_lock_interruptible int
  | Mutex_unlock
  | Mutex_destroy mutex
  | Device_destroy ptr dev_t
  | Cdev_del
  | Class_destroy ptr
  | Unregister_chrdev_region dev_t nat
  | Printk kmsg

type_synonym 'a outcome = "'a \<times> custom_dev_t \<times> kcall list"

definition printk :: "kmsg \<Rightarrow> kcall list" where
  "printk m = [Printk m]"

subsubsection \<open>The mutex\<close>

definition mutex_init :: "custom_dev_t \<Rightarrow> custom_dev_t \<times> kcall list" where
  "mutex_init d = (d\<lparr>lock := Unlocked\<rparr>, [Mutex_init])"

definition mutex_is_locked :: "custom_dev_t \<Rightarrow> bool" where
  "mutex_is_locked d = (lock d = Locked)"

definition mutex_unlock :: "custom_dev_t \<Rightarrow> custom_dev_t \<times> kcall list" where
  "mutex_unlock d = (d\<lparr>lock := Unlocked\<rparr>, [Mutex_unlock])"

definition mutex_destroy :: "custom_dev_t \<Rightarrow> custom_dev_t \<times> kcall list" where
  "mutex_destroy d = (d, [Mutex_destroy (lock d)])"

definition EINTR :: int where
  "EINTR = 4"

text \<open>
  \<open>mutex_lock_interruptible\<close> takes a free mutex at once and returns 0. On a held mutex
  the caller sleeps: when a signal arrives during the sleep (\<open>signalled\<close>) the call
  returns \<open>-EINTR\<close> and the mutex is as it was; otherwise the call has not returned,
  which is the value \<open>None\<close>.
\<close>

definition mutex_lock_interruptible :: "bool \<Rightarrow> custom_dev_t \<Rightarrow> int outcome option" where
  "mutex_lock_interruptible signalled d =
     (if lock d = Unlocked then Some (0, d\<lparr>lock := Locked\<rparr>, [Mutex_lock_interruptible 0])
      else if signalled then Some (- EINTR, d, [Mutex_lock_interruptible (- EINTR)])
      else None)"

subsubsection \<open>Registration services\<close>

text \<open>What the kernel answers to the four registration calls of \<open>custom_init\<close>.\<close>

record platform =
  alloc_chrdev_region_ret :: int
  alloc_chrdev_region_dev :: dev_t
  class_create_ret :: ptr
  cdev_add_ret :: int
  device_create_ret :: ptr

text \<open>\<open>alloc_chrdev_region\<close> stores the device number through its first argument only
  when it succeeds.\<close>

definition alloc_chrdev_region :: "platform \<Rightarrow> custom_dev_t \<Rightarrow> int outcome" where
  "alloc_chrdev_region p d =
     (if alloc_chrdev_region_ret p = 0
      then (0, d\<lparr>dev := alloc_chrdev_region_dev p\<rparr>, [Alloc_chrdev_region 0])
      else (alloc_chrdev_region_ret p, d, [Alloc_chrdev_region (alloc_chrdev_region_ret p)]))"

definition class_create :: "platform \<Rightarrow> ptr \<times> kcall list" where
  "class_create p = (class_create_ret p, [Class_create (class_create_ret p)])"

definition cdev_init :: "custom_dev_t \<Rightarrow> custom_dev_t \<times> kcall list" where
  "cdev_init d = (d\<lparr>cdev := \<lparr>owner = None, ops = Some Addr_fops\<rparr>\<rparr>, [Cdev_init])"

definition cdev_add :: "platform \<Rightarrow> dev_t \<Rightarrow> int \<times> kcall list" where
  "cdev_add p dv = (cdev_add_ret p, [Cdev_add dv (cdev_add_ret p)])"

definition device_create :: "platform \<Rightarrow> ptr \<Rightarrow> dev_t \<Rightarrow> ptr \<times> kcall list" where
  "device_create p cls dv = (device_create_ret p, [Device_create cls dv (device_create_ret p)])"

subsection \<open>open\<close>

text \<open>
  \<open>mn\<close> is an \<open>unsigned int\<close>, so \<open>mn < 0\<close> is a comparison of 32-bit words. The two
  extra arguments are the calling task and whether a signal arrives while the call
  sleeps on the mutex. \<open>None\<close>: the call is still asleep.
\<close>

definition open_dev ::
  "inode \<Rightarrow> file_ptr \<Rightarrow> task_struct \<Rightarrow> bool \<Rightarrow> custom_dev_t \<Rightarrow> int outcome option" where
  "open_dev ino fileptr current signalled d =
     (let mj = imajor ino; mn = iminor ino in
      if mj \<noteq> major d \<or> mn < 0 then Some (- 1, d, printk (Open_no_device mj mn))
      else if i_cdev ino \<noteq> Addr_custom_dev_cdev then Some (- 1, d, printk (Open_error mj mn))
      else
        (case mutex_lock_interruptible signalled d of
           None \<Rightarrow> None
         | Some (rc, d', t) \<Rightarrow>
             if rc \<noteq> 0 then Some (- 1, d', t @ printk (Open_error mj mn))
             else Some (0, d', t @ printk (File_opened (comm current) (pid current)))))"

subsection \<open>release\<close>

definition release :: "inode \<Rightarrow> file_ptr \<Rightarrow> custom_dev_t \<Rightarrow> int outcome" where
  "release ino fileptr d =
     (let mj = imajor ino; mn = iminor ino in
      if mj \<noteq> major d \<or> mn < 0 then (- 1, d, printk (Release_no_device mj mn))
      else if i_cdev ino \<noteq> Addr_custom_dev_cdev then (- 1, d, printk (Release_internal mj mn))
      else
        (let (d', t) = (if mutex_is_locked d then mutex_unlock d else (d, []))
         in (0, d', t @ printk File_released)))"

subsection \<open>ioctl\<close>

definition ioctl ::
  "file_ptr \<Rightarrow> 32 word \<Rightarrow> 64 word \<Rightarrow> task_struct \<Rightarrow> custom_dev_t \<Rightarrow> int outcome" where
  "ioctl fileptr cmd arg current d =
     (0, d, printk (Ioctl_called (comm current) (pid current)))"

subsection \<open>cleanup\<close>

text \<open>
  The \<open>switch\<close> has no \<open>break\<close> between its cases: control enters at the label equal to
  \<open>err\<close> and falls through every later case. Each \<open>case_n\<close> below is the code from label
  \<open>n\<close> to the end of the switch; any \<open>err\<close> outside 0..4 reaches \<open>default\<close>, which does
  nothing. Only case 0 changes the driver object.
\<close>

definition case_4 :: "custom_dev_t \<Rightarrow> kcall list" where
  "case_4 d = (if dev d \<noteq> 0 then [Unregister_chrdev_region (dev d) 1] else [])"

definition case_3 :: "custom_dev_t \<Rightarrow> kcall list" where
  "case_3 d = (if class_ptr d \<noteq> NULL then [Class_destroy (class_ptr d)] else []) @ case_4 d"

definition case_2 :: "custom_dev_t \<Rightarrow> kcall list" where
  "case_2 d = [Cdev_del] @ case_3 d"

definition case_1 :: "custom_dev_t \<Rightarrow> kcall list" where
  "case_1 d =
     (if device_ptr d \<noteq> NULL then [Device_destroy (class_ptr d) (dev d)] else []) @ case_2 d"

definition case_0 :: "custom_dev_t \<Rightarrow> custom_dev_t \<times> kcall list" where
  "case_0 d =
     (let (da, ta) = (if mutex_is_locked d then mutex_unlock d else (d, []));
          (db, tb) = mutex_destroy da
      in (db, ta @ tb @ case_1 db))"

definition cleanup :: "int \<Rightarrow> custom_dev_t \<Rightarrow> custom_dev_t \<times> kcall list" where
  "cleanup err d =
     (if err = 0 then case_0 d
      else if err = 1 then (d, case_1 d)
      else if err = 2 then (d, case_2 d)
      else if err = 3 then (d, case_3 d)
      else if err = 4 then (d, case_4 d)
      else (d, []))"

subsection \<open>custom\_init and custom\_exit\<close>

text \<open>
  The body of the \<open>do { ... } while (0)\<close>: each \<open>break\<close> leaves with the stage number in
  \<open>err\<close>.
\<close>

definition custom_init_body :: "platform \<Rightarrow> custom_dev_t \<Rightarrow> int outcome" where
  "custom_init_body p d =
     (let (rc1, d1, t1) = alloc_chrdev_region p d in
      if rc1 \<noteq> 0 then (4, d1, t1 @ printk Warn_alloc_chrdev_region)
      else
        let d2 = d1\<lparr>major := MAJOR (dev d1)\<rparr>;
            (cp, t3) = class_create p;
            d3 = d2\<lparr>class_ptr := cp\<rparr>
        in
        if class_ptr d3 = NULL then (3, d3, t1 @ t3 @ printk Warn_class_create)
        else
          let (d4, t4) = cdev_init d3;
              d5 = d4\<lparr>cdev := (cdev d4)\<lparr>owner := Some THIS_MODULE\<rparr>\<rparr>;
              (d6, t6) = mutex_init d5;
              (rc7, t7) = cdev_add p (dev d6)
          in
          if rc7 = - 1 then (2, d6, t1 @ t3 @ t4 @ t6 @ t7 @ printk Warn_cdev_add)
          else
            let (dp, t8) = device_create p (class_ptr d6) (dev d6);
                d8 = d6\<lparr>device_ptr := dp\<rparr>
            in
            if device_ptr d8 = NULL
            then (1, d8, t1 @ t3 @ t4 @ t6 @ t7 @ t8 @ printk Warn_device_create)
            else (0, d8, t1 @ t3 @ t4 @ t6 @ t7 @ t8))"

definition custom_init :: "platform \<Rightarrow> custom_dev_t \<Rightarrow> int outcome" where
  "custom_init p d =
     (let (err, d', t) = custom_init_body p d in
      if err \<noteq> 0 then (let (d'', t') = cleanup err d' in (err, d'', t @ t'))
      else (0, d', t))"

definition custom_exit :: "custom_dev_t \<Rightarrow> custom_dev_t \<times> kcall list" where
  "custom_exit d = cleanup 0 d"

section \<open>Vocabulary of the properties\<close>

text \<open>The three components of what a driver function yields.\<close>

definition ret_of :: "'a outcome \<Rightarrow> 'a" where
  "ret_of r = fst r"

definition dev_of :: "'a outcome \<Rightarrow> custom_dev_t" where
  "dev_of r = fst (snd r)"

definition calls_of :: "'a outcome \<Rightarrow> kcall list" where
  "calls_of r = snd (snd r)"

text \<open>
  The identity a caller presents is the inode: its major number (the class of device)
  and its cdev binding (the instance). It matches when both are the driver's.
\<close>

definition identity_matches :: "inode \<Rightarrow> custom_dev_t \<Rightarrow> bool" where
  "identity_matches ino d = (imajor ino = major d \<and> i_cdev ino = Addr_custom_dev_cdev)"

text \<open>The kernel calls other than log lines.\<close>

fun is_printk :: "kcall \<Rightarrow> bool" where
  "is_printk (Printk m) = True"
| "is_printk c = False"

definition service_calls :: "kcall list \<Rightarrow> kcall list" where
  "service_calls t = filter (\<lambda>c. \<not> is_printk c) t"

subsection \<open>Resources of initialisation\<close>

text \<open>
  The four setup steps of \<open>custom_init\<close> each register one resource with the kernel:
  the device-number region, the class, the cdev binding and the device node. Whether a
  step acquired its resource is what the kernel reports, not what \<open>custom_init\<close> tests:
  \<open>alloc_chrdev_region\<close> and \<open>cdev_add\<close> return 0 on success and a negative error
  number otherwise; \<open>class_create\<close> and \<open>device_create\<close> return a pointer to the new
  object on success and an error pointer (one of the top \<open>MAX_ERRNO\<close> addresses, as
  \<open>IS_ERR\<close> of the kernel's err.h tests) otherwise. A \<open>NULL\<close> result is no object
  either.
\<close>

definition MAX_ERRNO :: nat where
  "MAX_ERRNO = 4095"

definition IS_ERR :: "ptr \<Rightarrow> bool" where
  "IS_ERR p = (2 ^ 64 - MAX_ERRNO \<le> unat p)"

datatype resource = Region | Class | Binding | Node

fun acquires :: "kcall \<Rightarrow> resource option" where
  "acquires (Alloc_chrdev_region rc) = (if rc = 0 then Some Region else None)"
| "acquires (Class_create cp) = (if cp = NULL then None else if IS_ERR cp then None else Some Class)"
| "acquires (Cdev_add dv rc) = (if rc = 0 then Some Binding else None)"
| "acquires (Device_create cls dv dp) =
     (if dp = NULL then None else if IS_ERR dp then None else Some Node)"
| "acquires c = None"

fun releases :: "kcall \<Rightarrow> resource option" where
  "releases (Device_destroy cls dv) = Some Node"
| "releases Cdev_del = Some Binding"
| "releases (Class_destroy cls) = Some Class"
| "releases (Unregister_chrdev_region dv n) = Some Region"
| "releases c = None"

definition acquired :: "kcall list \<Rightarrow> resource list" where
  "acquired t = List.map_filter acquires t"

definition rolled_back :: "kcall list \<Rightarrow> resource list" where
  "rolled_back t = List.map_filter releases t"

subsection \<open>Sequences of operations\<close>

text \<open>
  Concurrent callers are modelled by interleaving: each operation acts on the driver
  object in one step (after initialisation the only member written is the mutex, whose
  operations are atomic). Every operation names the file it is called for. An \<open>Open\<close>
  that finds the mutex held and receives no signal has not returned: it yields no result
  and changes nothing, and the caller may complete it by a later \<open>Open\<close>.
\<close>

datatype event =
    Open inode file_ptr task_struct bool
  | Release inode file_ptr
  | Ioctl file_ptr "32 word" "64 word" task_struct

fun exec :: "event \<Rightarrow> custom_dev_t \<Rightarrow> int option \<times> custom_dev_t" where
  "exec (Open ino f cur sg) d =
     (case open_dev ino f cur sg d of
        None \<Rightarrow> (None, d)
      | Some r \<Rightarrow> (Some (ret_of r), dev_of r))"
| "exec (Release ino f) d = (Some (ret_of (release ino f d)), dev_of (release ino f d))"
| "exec (Ioctl f cmd arg cur) d =
     (Some (ret_of (ioctl f cmd arg cur d)), dev_of (ioctl f cmd arg cur d))"

text \<open>
  The sessions outstanding after an operation: an \<open>Open\<close> that returned 0 starts the
  session of its file, a \<open>Release\<close> that returned 0 ends the session of its file.
\<close>

fun track :: "event \<Rightarrow> int option \<Rightarrow> file_ptr list \<Rightarrow> file_ptr list" where
  "track (Open ino f cur sg) r fs = (if r = Some 0 then f # fs else fs)"
| "track (Release ino f) r fs = (if r = Some 0 then remove1 f fs else fs)"
| "track (Ioctl f cmd arg cur) r fs = fs"

fun run :: "event list \<Rightarrow> custom_dev_t \<times> file_ptr list \<Rightarrow> custom_dev_t \<times> file_ptr list" where
  "run [] c = c"
| "run (e # es) (d, fs) = run es (snd (exec e d), track e (fst (exec e d)) fs)"

text \<open>
  A sequence is disciplined when, while a session is outstanding, \<open>Release\<close> is called
  only for the file of an outstanding session.
\<close>

fun release_allowed :: "event \<Rightarrow> file_ptr list \<Rightarrow> bool" where
  "release_allowed (Release ino f) fs = (fs = [] \<or> f \<in> set fs)"
| "release_allowed e fs = True"

fun disciplined :: "event list \<Rightarrow> custom_dev_t \<times> file_ptr list \<Rightarrow> bool" where
  "disciplined [] c = True"
| "disciplined (e # es) (d, fs) =
     (release_allowed e fs \<and> disciplined es (run [e] (d, fs)))"

text \<open>
  The lock and the outstanding sessions agree: one session when the lock is held, none
  when it is free.
\<close>

definition sessions_ok :: "custom_dev_t \<Rightarrow> file_ptr list \<Rightarrow> bool" where
  "sessions_ok d fs = (if lock d = Locked then length fs = 1 else fs = [])"

subsection \<open>Example inputs\<close>

text \<open>A platform on which every registration call succeeds, with major number 240.\<close>

definition platform_ok :: platform where
  "platform_ok =
     \<lparr>alloc_chrdev_region_ret = 0, alloc_chrdev_region_dev = MKDEV 240 0,
      class_create_ret = 4096, cdev_add_ret = 0, device_create_ret = 8192\<rparr>"

text \<open>The driver object after \<open>custom_init\<close> on that platform.\<close>

definition registered_dev :: custom_dev_t where
  "registered_dev =
     \<lparr>lock = Unlocked, cdev = \<lparr>owner = Some THIS_MODULE, ops = Some Addr_fops\<rparr>,
      class_ptr = 4096, device_ptr = 8192, dev = MKDEV 240 0, major = 240\<rparr>"

definition own_inode :: inode where
  "own_inode = \<lparr>i_rdev = MKDEV 240 0, i_cdev = Addr_custom_dev_cdev\<rparr>"

definition task_a :: task_struct where
  "task_a = \<lparr>comm = ''cat'', pid = 101\<rparr>"

definition task_b :: task_struct where
  "task_b = \<lparr>comm = ''dd'', pid = 202\<rparr>"

section \<open>Properties\<close>

lemmas outcome_defs = ret_of_def dev_of_def calls_of_def

lemmas kdev_defs = MAJOR_def MINOR_def MKDEV_def MINORBITS_def MINORMASK_def imajor_def iminor_def

lemmas example_defs = platform_ok_def registered_dev_def own_inode_def task_a_def task_b_def

lemma open_dev_mismatch:
  "\<not> identity_matches ino d \<Longrightarrow>
   \<exists>m. open_dev ino f cur sg d = Some (- 1, d, [Printk m])"
  by (auto simp: open_dev_def identity_matches_def printk_def Let_def)

lemma release_mismatch:
  "\<not> identity_matches ino d \<Longrightarrow> \<exists>m. release ino f d = (- 1, d, [Printk m])"
  by (auto simp: release_def identity_matches_def printk_def Let_def)

lemma open_dev_match:
  "identity_matches ino d \<Longrightarrow>
   open_dev ino f cur sg d =
     (if lock d = Unlocked
      then Some (0, d\<lparr>lock := Locked\<rparr>,
                 [Mutex_lock_interruptible 0, Printk (File_opened (comm cur) (pid cur))])
      else if sg
      then Some (- 1, d, [Mutex_lock_interruptible (- EINTR),
                          Printk (Open_error (imajor ino) (iminor ino))])
      else None)"
  by (auto simp: open_dev_def identity_matches_def printk_def Let_def
      mutex_lock_interruptible_def EINTR_def)

lemma release_match:
  "identity_matches ino d \<Longrightarrow>
   release ino f d =
     (if lock d = Locked then (0, d\<lparr>lock := Unlocked\<rparr>, [Mutex_unlock, Printk File_released])
      else (0, d, [Printk File_released]))"
  by (auto simp: release_def identity_matches_def printk_def Let_def
      mutex_is_locked_def mutex_unlock_def)

lemma not_Locked [simp]: "(m \<noteq> Locked) = (m = Unlocked)"
  by (cases m) simp_all

lemma release_match_dev:
  "identity_matches ino d \<Longrightarrow> dev_of (release ino f d) = d\<lparr>lock := Unlocked\<rparr>"
  by (cases "lock d") (auto simp: release_match dev_of_def)

lemma identity_matches_lock [simp]:
  "identity_matches ino (d\<lparr>lock := l\<rparr>) = identity_matches ino d"
  by (simp add: identity_matches_def)

lemma own_inode_matches: "identity_matches own_inode registered_dev"
  by (simp add: identity_matches_def example_defs kdev_defs)

subsection \<open>Command\<close>

text \<open>
  Claim C6. For every command code and argument, and whether or not the lock is held,
  \<open>ioctl\<close> returns the same fixed success value 0, leaves the driver object (and so the
  lock) exactly as it was, calls no kernel service besides the log line, and its outcome
  does not depend on the command code or the argument.
\<close>
theorem ioctl_fixed_success:
  "ret_of (ioctl fileptr cmd arg current d) = 0
   \<and> dev_of (ioctl fileptr cmd arg current d) = d
   \<and> service_calls (calls_of (ioctl fileptr cmd arg current d)) = []
   \<and> ioctl fileptr cmd arg current d = ioctl fileptr cmd' arg' current d"
  by (simp add: ioctl_def outcome_defs service_calls_def printk_def)

subsection \<open>The minor number\<close>

text \<open>
  Claim C9. The test \<open>mn < 0\<close> on the unsigned minor number is false for every inode, so
  the identity check of \<open>open\<close> and \<open>release\<close> depends only on the major number and the
  cdev binding: two inodes that agree on these are treated alike whatever their minors.
\<close>
theorem minor_check_vacuous:
  "\<not> iminor ino < 0
   \<and> (imajor ino = imajor ino' \<and> i_cdev ino = i_cdev ino' \<longrightarrow>
        map_option ret_of (open_dev ino f cur sg d) = map_option ret_of (open_dev ino' f cur sg d)
      \<and> map_option dev_of (open_dev ino f cur sg d) = map_option dev_of (open_dev ino' f cur sg d)
      \<and> ret_of (release ino f d) = ret_of (release ino' f d)
      \<and> dev_of (release ino f d) = dev_of (release ino' f d))"
  by (auto simp: open_dev_def release_def Let_def outcome_defs printk_def
      split: option.splits prod.splits)

theorem minor_check_vacuous_witness:
  "map_option ret_of (open_dev \<lparr>i_rdev = MKDEV 240 0, i_cdev = Addr_custom_dev_cdev\<rparr> 1 task_a False registered_dev)
   = Some 0
   \<and> map_option ret_of (open_dev \<lparr>i_rdev = MKDEV 240 77, i_cdev = Addr_custom_dev_cdev\<rparr> 1 task_a False registered_dev)
   = Some 0"
proof -
  have a: "imajor \<lparr>i_rdev = MKDEV 240 0, i_cdev = Addr_custom_dev_cdev\<rparr>
         = imajor \<lparr>i_rdev = MKDEV 240 77, i_cdev = Addr_custom_dev_cdev\<rparr>"
    by (simp add: kdev_defs)
  have b: "map_option ret_of (open_dev \<lparr>i_rdev = MKDEV 240 0, i_cdev = Addr_custom_dev_cdev\<rparr> 1 task_a False registered_dev) = Some 0"
    by (simp add: open_dev_def Let_def mutex_lock_interruptible_def outcome_defs example_defs kdev_defs)
  have a2: "i_cdev \<lparr>i_rdev = MKDEV 240 0, i_cdev = Addr_custom_dev_cdev\<rparr>
         = i_cdev \<lparr>i_rdev = MKDEV 240 77, i_cdev = Addr_custom_dev_cdev\<rparr>"
    by simp
  from a a2 minor_check_vacuous
    [of "\<lparr>i_rdev = MKDEV 240 0, i_cdev = Addr_custom_dev_cdev\<rparr>"
        "\<lparr>i_rdev = MKDEV 240 77, i_cdev = Addr_custom_dev_cdev\<rparr>" 1 task_a False registered_dev]
  have e: "map_option ret_of (open_dev \<lparr>i_rdev = MKDEV 240 0, i_cdev = Addr_custom_dev_cdev\<rparr> 1 task_a False registered_dev)
    = map_option ret_of (open_dev \<lparr>i_rdev = MKDEV 240 77, i_cdev = Addr_custom_dev_cdev\<rparr> 1 task_a False registered_dev)"
    by blast
  from b e show ?thesis by metis
qed

subsection \<open>Failure values\<close>

text \<open>
  Claim C10. Every failure of \<open>open\<close> and of \<open>release\<close> returns -1: a wrong major
  number, a wrong cdev binding and an interrupted wait all yield the same value, so the
  return value does not tell the kinds of failure apart.
\<close>
theorem failures_return_minus_one:
  "(\<forall>r. open_dev ino f cur sg d = Some r \<and> ret_of r \<noteq> 0 \<longrightarrow> ret_of r = - 1)
   \<and> (ret_of (release ino f d) \<noteq> 0 \<longrightarrow> ret_of (release ino f d) = - 1)
   \<and> (imajor ino \<noteq> major d \<longrightarrow>
        map_option ret_of (open_dev ino f cur sg d) = Some (- 1)
      \<and> ret_of (release ino f d) = - 1)
   \<and> (imajor ino = major d \<and> i_cdev ino \<noteq> Addr_custom_dev_cdev \<longrightarrow>
        map_option ret_of (open_dev ino f cur sg d) = Some (- 1)
      \<and> ret_of (release ino f d) = - 1)
   \<and> (identity_matches ino d \<and> lock d = Locked \<longrightarrow>
        map_option ret_of (open_dev ino f cur True d) = Some (- 1))"
proof (cases "identity_matches ino d")
  case True
  then show ?thesis
    by (auto simp: open_dev_match release_match outcome_defs identity_matches_def
        split: if_splits)
next
  case False
  from open_dev_mismatch [OF False, of f cur sg] release_mismatch [OF False, of f] False
  show ?thesis
    by (auto simp: outcome_defs identity_matches_def)
qed

theorem failures_return_minus_one_witness:
  "map_option ret_of
     (open_dev \<lparr>i_rdev = MKDEV 7 0, i_cdev = Addr_custom_dev_cdev\<rparr> 1 task_a False registered_dev)
     = Some (- 1)
   \<and> map_option ret_of
     (open_dev \<lparr>i_rdev = MKDEV 240 0, i_cdev = Addr_other_cdev 3\<rparr> 1 task_a False registered_dev)
     = Some (- 1)
   \<and> map_option ret_of (open_dev own_inode 2 task_b True (registered_dev\<lparr>lock := Locked\<rparr>))
     = Some (- 1)
   \<and> ret_of (release \<lparr>i_rdev = MKDEV 7 0, i_cdev = Addr_custom_dev_cdev\<rparr> 1 registered_dev) = - 1
   \<and> ret_of (release \<lparr>i_rdev = MKDEV 240 0, i_cdev = Addr_other_cdev 3\<rparr> 1 registered_dev) = - 1"
proof -
  have a: "imajor \<lparr>i_rdev = MKDEV 7 0, i_cdev = Addr_custom_dev_cdev\<rparr> \<noteq> major registered_dev"
    by (simp add: kdev_defs example_defs)
  have b: "imajor \<lparr>i_rdev = MKDEV 240 0, i_cdev = Addr_other_cdev 3\<rparr> = major registered_dev
           \<and> i_cdev \<lparr>i_rdev = MKDEV 240 0, i_cdev = Addr_other_cdev 3\<rparr> \<noteq> Addr_custom_dev_cdev"
    by (simp add: kdev_defs example_defs)
  have c: "identity_matches own_inode (registered_dev\<lparr>lock := Locked\<rparr>)
           \<and> lock (registered_dev\<lparr>lock := Locked\<rparr>) = Locked"
    by (simp add: own_inode_matches)
  from a failures_return_minus_one
    [of "\<lparr>i_rdev = MKDEV 7 0, i_cdev = Addr_custom_dev_cdev\<rparr>" 1 task_a False registered_dev]
  have 1: "map_option ret_of
     (open_dev \<lparr>i_rdev = MKDEV 7 0, i_cdev = Addr_custom_dev_cdev\<rparr> 1 task_a False registered_dev)
     = Some (- 1)
     \<and> ret_of (release \<lparr>i_rdev = MKDEV 7 0, i_cdev = Addr_custom_dev_cdev\<rparr> 1 registered_dev) = - 1"
    by blast
  from b failures_return_minus_one
    [of "\<lparr>i_rdev = MKDEV 240 0, i_cdev = Addr_other_cdev 3\<rparr>" 1 task_a False registered_dev]
  have 2: "map_option ret_of
     (open_dev \<lparr>i_rdev = MKDEV 240 0, i_cdev = Addr_other_cdev 3\<rparr> 1 task_a False registered_dev)
     = Some (- 1)
     \<and> ret_of (release \<lparr>i_rdev = MKDEV 240 0, i_cdev = Addr_other_cdev 3\<rparr> 1 registered_dev) = - 1"
    by blast
  from c failures_return_minus_one
    [of own_inode 2 task_b True "registered_dev\<lparr>lock := Locked\<rparr>"]
  have 3: "map_option ret_of (open_dev own_inode 2 task_b True (registered_dev\<lparr>lock := Locked\<rparr>))
     = Some (- 1)"
    by blast
  from 1 2 3 show ?thesis by blast
qed

subsection \<open>Identity mismatch\<close>

text \<open>
  Claim C5. When the presented identity does not match the driver's (the major number
  or the cdev binding differs), \<open>open\<close> and \<open>release\<close> fail, with the failure value -1,
  the driver object afterwards equals the driver object before, and no kernel service is
  called besides the log line. The failure value is the driver's single one; the name
  NotFoundError is the specification's label for this branch.
\<close>
theorem identity_mismatch_no_change:
  assumes "\<not> identity_matches ino d"
  shows "map_option ret_of (open_dev ino f cur sg d) = Some (- 1)
     \<and> map_option dev_of (open_dev ino f cur sg d) = Some d
     \<and> map_option (service_calls \<circ> calls_of) (open_dev ino f cur sg d) = Some []
     \<and> ret_of (release ino f d) = - 1
     \<and> dev_of (release ino f d) = d
     \<and> service_calls (calls_of (release ino f d)) = []"
  using open_dev_mismatch [OF assms, of f cur sg] release_mismatch [OF assms, of f]
  by (auto simp: outcome_defs service_calls_def)

theorem identity_mismatch_no_change_witness:
  "\<not> identity_matches \<lparr>i_rdev = MKDEV 240 0, i_cdev = Addr_other_cdev 3\<rparr>
        (registered_dev\<lparr>lock := Locked\<rparr>)
   \<and> map_option ret_of (open_dev \<lparr>i_rdev = MKDEV 240 0, i_cdev = Addr_other_cdev 3\<rparr> 1 task_a False
        (registered_dev\<lparr>lock := Locked\<rparr>)) = Some (- 1)
   \<and> map_option dev_of (open_dev \<lparr>i_rdev = MKDEV 240 0, i_cdev = Addr_other_cdev 3\<rparr> 1 task_a False
        (registered_dev\<lparr>lock := Locked\<rparr>)) = Some (registered_dev\<lparr>lock := Locked\<rparr>)
   \<and> ret_of (release \<lparr>i_rdev = MKDEV 240 0, i_cdev = Addr_other_cdev 3\<rparr> 1
        (registered_dev\<lparr>lock := Locked\<rparr>)) = - 1
   \<and> dev_of (release \<lparr>i_rdev = MKDEV 240 0, i_cdev = Addr_other_cdev 3\<rparr> 1
        (registered_dev\<lparr>lock := Locked\<rparr>)) = registered_dev\<lparr>lock := Locked\<rparr>"
proof -
  have a: "\<not> identity_matches \<lparr>i_rdev = MKDEV 240 0, i_cdev = Addr_other_cdev 3\<rparr>
        (registered_dev\<lparr>lock := Locked\<rparr>)"
    by (simp add: identity_matches_def)
  from a identity_mismatch_no_change [OF a, of 1 task_a False] show ?thesis
    by simp
qed

subsection \<open>Idempotent release\<close>

text \<open>
  Claim C3. With a matching identity, a \<open>release\<close> on a free lock returns 0 and changes
  nothing; and two calls of \<open>release\<close> in a row both return 0, the second one changes
  nothing, and a following \<open>open\<close> behaves after the second as it would after the first.
\<close>
theorem release_idempotent:
  assumes "identity_matches ino d"
  shows "(lock d = Unlocked \<longrightarrow>
            ret_of (release ino f d) = 0 \<and> dev_of (release ino f d) = d
          \<and> service_calls (calls_of (release ino f d)) = [])
     \<and> ret_of (release ino f d) = 0
     \<and> ret_of (release ino f (dev_of (release ino f d))) = 0
     \<and> dev_of (release ino f (dev_of (release ino f d))) = dev_of (release ino f d)
     \<and> service_calls (calls_of (release ino f (dev_of (release ino f d)))) = []
     \<and> open_dev ino' f' cur sg (dev_of (release ino f (dev_of (release ino f d))))
       = open_dev ino' f' cur sg (dev_of (release ino f d))"
proof -
  have 1: "ret_of (release ino f d) = 0"
    using assms by (simp add: release_match ret_of_def)
  have 2: "dev_of (release ino f d) = d\<lparr>lock := Unlocked\<rparr>"
    using assms by (rule release_match_dev)
  have 3: "lock d = Unlocked \<Longrightarrow> service_calls (calls_of (release ino f d)) = []"
    using assms by (simp add: release_match calls_of_def service_calls_def)
  have 5: "lock d = Unlocked \<Longrightarrow> d\<lparr>lock := Unlocked\<rparr> = d"
    by (cases d) simp
  have m: "identity_matches ino (d\<lparr>lock := Unlocked\<rparr>)"
    using assms by simp
  have 4: "release ino f (d\<lparr>lock := Unlocked\<rparr>) = (0, d\<lparr>lock := Unlocked\<rparr>, [Printk File_released])"
    by (simp add: release_match [OF m])
  show ?thesis
    using 1 2 3 4 5 by (simp add: outcome_defs service_calls_def)
qed

theorem release_idempotent_witness:
  "identity_matches own_inode registered_dev
   \<and> lock registered_dev = Unlocked
   \<and> ret_of (release own_inode 1 registered_dev) = 0
   \<and> dev_of (release own_inode 1 registered_dev) = registered_dev
   \<and> ret_of (release own_inode 1 (dev_of (release own_inode 1 registered_dev))) = 0
   \<and> map_option ret_of
       (open_dev own_inode 2 task_b False
          (dev_of (release own_inode 1 (dev_of (release own_inode 1 registered_dev))))) = Some 0"
proof -
  have l: "lock registered_dev = Unlocked"
    by (simp add: registered_dev_def)
  have o: "map_option ret_of (open_dev own_inode 2 task_b False registered_dev) = Some 0"
    by (simp add: open_dev_match [OF own_inode_matches] l outcome_defs)
  from l o own_inode_matches release_idempotent [OF own_inode_matches, of 1 own_inode 2 task_b False]
  show ?thesis by simp
qed

subsection \<open>Interrupted open\<close>

text \<open>
  Claim C4. An \<open>open\<close> with matching identity that sleeps on the held lock and is
  interrupted by a signal fails (with the failure value -1, after the mutex service
  returned \<open>-EINTR\<close>) and leaves the driver object, the lock included, exactly as it
  was; any later \<open>open\<close> therefore behaves as if the interrupted call had not happened.
  The failure value is the driver's single one; the name InterruptedError is the
  specification's label for this branch.
\<close>
theorem interrupted_open_leaves_lock:
  assumes "identity_matches ino d" and "lock d = Locked"
  shows "open_dev ino f cur True d
           = Some (- 1, d, [Mutex_lock_interruptible (- EINTR),
                            Printk (Open_error (imajor ino) (iminor ino))])
     \<and> map_option ret_of (open_dev ino f cur True d) = Some (- 1)
     \<and> map_option dev_of (open_dev ino f cur True d) = Some d
     \<and> (\<forall>d'. map_option dev_of (open_dev ino f cur True d) = Some d' \<longrightarrow>
           open_dev ino2 f2 cur2 sg2 d' = open_dev ino2 f2 cur2 sg2 d)"
  using assms by (simp add: open_dev_match outcome_defs)

theorem interrupted_open_leaves_lock_witness:
  "identity_matches own_inode (registered_dev\<lparr>lock := Locked\<rparr>)
   \<and> lock (registered_dev\<lparr>lock := Locked\<rparr>) = Locked
   \<and> map_option ret_of (open_dev own_inode 2 task_b True (registered_dev\<lparr>lock := Locked\<rparr>))
       = Some (- 1)
   \<and> map_option dev_of (open_dev own_inode 2 task_b True (registered_dev\<lparr>lock := Locked\<rparr>))
       = Some (registered_dev\<lparr>lock := Locked\<rparr>)"
proof -
  have a: "identity_matches own_inode (registered_dev\<lparr>lock := Locked\<rparr>)"
    by (simp add: own_inode_matches)
  have b: "lock (registered_dev\<lparr>lock := Locked\<rparr>) = Locked"
    by simp
  from a b interrupted_open_leaves_lock [OF a b, of 2 task_b own_inode 3 task_a False]
  show ?thesis by blast
qed

subsection \<open>Result of release\<close>

text \<open>
  Claim C8 says that \<open>release\<close> returns success on every invocation. It does not: with
  an inode of another major number it returns -1.
\<close>
theorem release_can_fail_counterexample:
  "ret_of (release \<lparr>i_rdev = MKDEV 7 0, i_cdev = Addr_custom_dev_cdev\<rparr> 1 registered_dev) \<noteq> 0"
  by (simp add: release_def Let_def outcome_defs printk_def kdev_defs example_defs)

text \<open>
  Claim C8, amended. \<open>release\<close> returns 0 exactly when the presented identity matches,
  whether the lock was held or free, and -1 otherwise.
\<close>
theorem release_result:
  "ret_of (release ino f d) = (if identity_matches ino d then 0 else - 1)"
proof (cases "identity_matches ino d")
  case True
  then show ?thesis by (simp add: release_match outcome_defs)
next
  case False
  from release_mismatch [OF False, of f] False show ?thesis
    by (auto simp: outcome_defs)
qed

theorem release_result_witness:
  "identity_matches own_inode (registered_dev\<lparr>lock := Locked\<rparr>)
   \<and> ret_of (release own_inode 1 (registered_dev\<lparr>lock := Locked\<rparr>)) = 0
   \<and> identity_matches own_inode registered_dev
   \<and> ret_of (release own_inode 1 registered_dev) = 0
   \<and> \<not> identity_matches \<lparr>i_rdev = MKDEV 7 0, i_cdev = Addr_custom_dev_cdev\<rparr> registered_dev
   \<and> ret_of (release \<lparr>i_rdev = MKDEV 7 0, i_cdev = Addr_custom_dev_cdev\<rparr> 1 registered_dev) = - 1"
proof -
  have a: "identity_matches own_inode (registered_dev\<lparr>lock := Locked\<rparr>)"
    by (simp add: own_inode_matches)
  have b: "\<not> identity_matches \<lparr>i_rdev = MKDEV 7 0, i_cdev = Addr_custom_dev_cdev\<rparr> registered_dev"
    by (simp add: identity_matches_def kdev_defs example_defs)
  from a b own_inode_matches
    release_result [of own_inode 1 "registered_dev\<lparr>lock := Locked\<rparr>"]
    release_result [of own_inode 1 registered_dev]
    release_result [of "\<lparr>i_rdev = MKDEV 7 0, i_cdev = Addr_custom_dev_cdev\<rparr>" 1 registered_dev]
  show ?thesis by simp
qed

subsection \<open>Initialisation and teardown\<close>

lemma unlocked_update: "lock d = Unlocked \<Longrightarrow> d\<lparr>lock := Unlocked\<rparr> = d"
  by (cases d) simp

lemmas cleanup_defs = cleanup_def case_0_def case_1_def case_2_def case_3_def case_4_def

lemma cleanup_0:
  "cleanup 0 d =
     (d\<lparr>lock := Unlocked\<rparr>,
      (if lock d = Locked then [Mutex_unlock] else [])
      @ [Mutex_destroy Unlocked]
      @ (if device_ptr d \<noteq> NULL then [Device_destroy (class_ptr d) (dev d)] else [])
      @ [Cdev_del]
      @ (if class_ptr d \<noteq> NULL then [Class_destroy (class_ptr d)] else [])
      @ (if dev d \<noteq> 0 then [Unregister_chrdev_region (dev d) 1] else []))"
  by (cases "lock d")
    (simp_all add: cleanup_defs mutex_is_locked_def mutex_unlock_def mutex_destroy_def
      unlocked_update)

lemma cleanup_stage:
  "err \<noteq> 0 \<Longrightarrow>
   cleanup err d =
     (d,
      (if err = 1 \<and> device_ptr d \<noteq> NULL then [Device_destroy (class_ptr d) (dev d)] else [])
      @ (if 1 \<le> err \<and> err \<le> 2 then [Cdev_del] else [])
      @ (if 1 \<le> err \<and> err \<le> 3 \<and> class_ptr d \<noteq> NULL then [Class_destroy (class_ptr d)] else [])
      @ (if 1 \<le> err \<and> err \<le> 4 \<and> dev d \<noteq> 0 then [Unregister_chrdev_region (dev d) 1] else []))"
  by (auto simp: cleanup_defs)

lemma custom_init_body_cases:
  "custom_init_body p custom_dev =
    (if alloc_chrdev_region_ret p \<noteq> 0 then
       (4, custom_dev,
        [Alloc_chrdev_region (alloc_chrdev_region_ret p), Printk Warn_alloc_chrdev_region])
     else if class_create_ret p = NULL then
       (3, custom_dev\<lparr>dev := alloc_chrdev_region_dev p,
                      major := MAJOR (alloc_chrdev_region_dev p), class_ptr := NULL\<rparr>,
        [Alloc_chrdev_region 0, Class_create NULL, Printk Warn_class_create])
     else if cdev_add_ret p = - 1 then
       (2, \<lparr>lock = Unlocked, cdev = \<lparr>owner = Some THIS_MODULE, ops = Some Addr_fops\<rparr>,
           class_ptr = class_create_ret p, device_ptr = NULL,
           dev = alloc_chrdev_region_dev p, major = MAJOR (alloc_chrdev_region_dev p)\<rparr>,
        [Alloc_chrdev_region 0, Class_create (class_create_ret p), Cdev_init, Mutex_init,
         Cdev_add (alloc_chrdev_region_dev p) (- 1), Printk Warn_cdev_add])
     else if device_create_ret p = NULL then
       (1, \<lparr>lock = Unlocked, cdev = \<lparr>owner = Some THIS_MODULE, ops = Some Addr_fops\<rparr>,
           class_ptr = class_create_ret p, device_ptr = NULL,
           dev = alloc_chrdev_region_dev p, major = MAJOR (alloc_chrdev_region_dev p)\<rparr>,
        [Alloc_chrdev_region 0, Class_create (class_create_ret p), Cdev_init, Mutex_init,
         Cdev_add (alloc_chrdev_region_dev p) (cdev_add_ret p),
         Device_create (class_create_ret p) (alloc_chrdev_region_dev p) NULL,
         Printk Warn_device_create])
     else
       (0, \<lparr>lock = Unlocked, cdev = \<lparr>owner = Some THIS_MODULE, ops = Some Addr_fops\<rparr>,
           class_ptr = class_create_ret p, device_ptr = device_create_ret p,
           dev = alloc_chrdev_region_dev p, major = MAJOR (alloc_chrdev_region_dev p)\<rparr>,
        [Alloc_chrdev_region 0, Class_create (class_create_ret p), Cdev_init, Mutex_init,
         Cdev_add (alloc_chrdev_region_dev p) (cdev_add_ret p),
         Device_create (class_create_ret p) (alloc_chrdev_region_dev p) (device_create_ret p)]))"
  by (simp add: custom_init_body_def custom_dev_def alloc_chrdev_region_def class_create_def
      cdev_init_def mutex_init_def cdev_add_def device_create_def printk_def Let_def)


lemma custom_init_cases:
  "custom_init p custom_dev =
    (let dv = alloc_chrdev_region_dev p; cls = class_create_ret p;
         d2 = \<lparr>lock = Unlocked, cdev = \<lparr>owner = Some THIS_MODULE, ops = Some Addr_fops\<rparr>,
               class_ptr = cls, device_ptr = NULL, dev = dv, major = MAJOR dv\<rparr>
     in
     if alloc_chrdev_region_ret p \<noteq> 0 then
       (4, custom_dev,
        [Alloc_chrdev_region (alloc_chrdev_region_ret p), Printk Warn_alloc_chrdev_region])
     else if cls = NULL then
       (3, custom_dev\<lparr>dev := dv, major := MAJOR dv, class_ptr := NULL\<rparr>,
        [Alloc_chrdev_region 0, Class_create NULL, Printk Warn_class_create]
        @ (if dv \<noteq> 0 then [Unregister_chrdev_region dv 1] else []))
     else if cdev_add_ret p = - 1 then
       (2, d2,
        [Alloc_chrdev_region 0, Class_create cls, Cdev_init, Mutex_init,
         Cdev_add dv (- 1), Printk Warn_cdev_add, Cdev_del, Class_destroy cls]
        @ (if dv \<noteq> 0 then [Unregister_chrdev_region dv 1] else []))
     else if device_create_ret p = NULL then
       (1, d2,
        [Alloc_chrdev_region 0, Class_create cls, Cdev_init, Mutex_init,
         Cdev_add dv (cdev_add_ret p), Device_create cls dv NULL, Printk Warn_device_create,
         Cdev_del, Class_destroy cls]
        @ (if dv \<noteq> 0 then [Unregister_chrdev_region dv 1] else []))
     else
       (0, d2\<lparr>device_ptr := device_create_ret p\<rparr>,
        [Alloc_chrdev_region 0, Class_create cls, Cdev_init, Mutex_init,
         Cdev_add dv (cdev_add_ret p), Device_create cls dv (device_create_ret p)]))"
  unfolding custom_init_def custom_init_body_cases
  by (simp add: cleanup_stage Let_def custom_dev_def)

lemmas resource_defs = acquired_def rolled_back_def List.map_filter_simps IS_ERR_def MAX_ERRNO_def

lemma init_platform_ok: "custom_init platform_ok custom_dev =
   (0, registered_dev,
    [Alloc_chrdev_region 0, Class_create 4096, Cdev_init, Mutex_init,
     Cdev_add (MKDEV 240 0) 0, Device_create 4096 (MKDEV 240 0) 8192])"
  by (simp add: custom_init_cases Let_def platform_ok_def registered_dev_def kdev_defs)

text \<open>
  Claim C2 says that a failed \<open>custom_init\<close> rolls back the resources acquired so far, and
  only those, in reverse order. The code at the input where \<open>alloc_chrdev_region\<close> and
  \<open>class_create\<close> succeed and \<open>cdev_add\<close> returns -1: \<open>custom_init\<close> returns 2, the region
  and the class have been acquired and the binding has not, and \<open>cleanup 2\<close> enters at
  case 2, whose \<open>cdev_del\<close> has no test in front of it (cases 1, 3 and 4 test their
  member first). The rollback is binding, class, region: it is not the reverse of what
  was acquired.
\<close>
theorem init_cdev_add_failure_rollback:
  "ret_of (custom_init (platform_ok\<lparr>cdev_add_ret := - 1\<rparr>) custom_dev) = 2
   \<and> calls_of (custom_init (platform_ok\<lparr>cdev_add_ret := - 1\<rparr>) custom_dev)
       = [Alloc_chrdev_region 0, Class_create 4096, Cdev_init, Mutex_init,
          Cdev_add (MKDEV 240 0) (- 1), Printk Warn_cdev_add,
          Cdev_del, Class_destroy 4096, Unregister_chrdev_region (MKDEV 240 0) 1]
   \<and> acquired (calls_of (custom_init (platform_ok\<lparr>cdev_add_ret := - 1\<rparr>) custom_dev))
       = [Region, Class]
   \<and> rolled_back (calls_of (custom_init (platform_ok\<lparr>cdev_add_ret := - 1\<rparr>) custom_dev))
       = [Binding, Class, Region]
   \<and> rolled_back (calls_of (custom_init (platform_ok\<lparr>cdev_add_ret := - 1\<rparr>) custom_dev))
       \<noteq> rev (acquired (calls_of (custom_init (platform_ok\<lparr>cdev_add_ret := - 1\<rparr>) custom_dev)))"
  by (simp add: custom_init_cases Let_def outcome_defs resource_defs platform_ok_def kdev_defs)

text \<open>
  Claim C7 says that \<open>custom_exit\<close>, from any registered state, undoes the steps of
  \<open>custom_init\<close> in reverse order and skips each resource that was never created. The
  code at the input where \<open>cdev_add\<close> fails with \<open>-ENOMEM\<close> (-12) and the other three
  calls succeed: \<open>custom_init\<close> compares the result with -1 only, so it goes on and
  returns 0; region, class and node have been acquired and the binding has not. From
  that state \<open>custom_exit\<close> destroys the unlocked mutex, destroys the node, deletes the
  binding, destroys the class and unregisters the region: \<open>cdev_del\<close> is not skipped,
  and what is rolled back is not the reverse of what was acquired.
\<close>
theorem exit_deletes_absent_binding:
  "ret_of (custom_init (platform_ok\<lparr>cdev_add_ret := - 12\<rparr>) custom_dev) = 0
   \<and> acquired (calls_of (custom_init (platform_ok\<lparr>cdev_add_ret := - 12\<rparr>) custom_dev))
       = [Region, Class, Node]
   \<and> snd (custom_exit (dev_of (custom_init (platform_ok\<lparr>cdev_add_ret := - 12\<rparr>) custom_dev)))
       = [Mutex_destroy Unlocked, Device_destroy 4096 (MKDEV 240 0), Cdev_del,
          Class_destroy 4096, Unregister_chrdev_region (MKDEV 240 0) 1]
   \<and> rolled_back
         (snd (custom_exit (dev_of (custom_init (platform_ok\<lparr>cdev_add_ret := - 12\<rparr>) custom_dev))))
       = [Node, Binding, Class, Region]
   \<and> rolled_back
         (snd (custom_exit (dev_of (custom_init (platform_ok\<lparr>cdev_add_ret := - 12\<rparr>) custom_dev))))
       \<noteq> rev (acquired (calls_of (custom_init (platform_ok\<lparr>cdev_add_ret := - 12\<rparr>) custom_dev)))"
  by (simp add: custom_init_cases custom_exit_def cleanup_0 Let_def outcome_defs resource_defs
      platform_ok_def kdev_defs)

subsection \<open>Runs\<close>

lemma release_dev:
  "dev_of (release ino f d) = (if identity_matches ino d then d\<lparr>lock := Unlocked\<rparr> else d)"
proof (cases "identity_matches ino d")
  case True
  then show ?thesis by (simp add: release_match_dev)
next
  case False
  from release_mismatch [OF False, of f] False show ?thesis
    by (auto simp: dev_of_def)
qed

lemma exec_open:
  "exec (Open ino f cur sg) d =
     (if \<not> identity_matches ino d then (Some (- 1), d)
      else if lock d = Unlocked then (Some 0, d\<lparr>lock := Locked\<rparr>)
      else if sg then (Some (- 1), d)
      else (None, d))"
proof (cases "identity_matches ino d")
  case True
  then show ?thesis by (simp add: open_dev_match outcome_defs)
next
  case False
  from open_dev_mismatch [OF False, of f cur sg] False show ?thesis
    by (auto simp: outcome_defs)
qed

lemma exec_release:
  "exec (Release ino f) d =
     (if identity_matches ino d then (Some 0, d\<lparr>lock := Unlocked\<rparr>) else (Some (- 1), d))"
proof (cases "identity_matches ino d")
  case True
  then show ?thesis by (simp add: release_dev) (simp add: release_match ret_of_def)
next
  case False
  from release_mismatch [OF False, of f] False show ?thesis
    by (auto simp: outcome_defs)
qed

lemma exec_ioctl: "exec (Ioctl f cmd arg cur) d = (Some 0, d)"
  by (simp add: ioctl_def outcome_defs)

declare exec.simps [simp del]

subsection \<open>Sessions\<close>

lemma sessions_ok_step:
  assumes "sessions_ok d fs" and "release_allowed e fs"
  shows "sessions_ok (snd (exec e d)) (track e (fst (exec e d)) fs)"
proof (cases e)
  case (Open ino f cur sg)
  with assms(1) show ?thesis
    by (auto simp: exec_open sessions_ok_def)
next
  case (Release ino f)
  show ?thesis
  proof (cases "lock d")
    case Unlocked
    with assms(1) Release show ?thesis
      by (auto simp: exec_release sessions_ok_def)
  next
    case Locked
    with assms(1) obtain g where g: "fs = [g]"
      by (cases fs) (auto simp: sessions_ok_def)
    with assms(2) Release have "g = f" by simp
    with g Release Locked show ?thesis
      by (auto simp: exec_release sessions_ok_def)
  qed
next
  case (Ioctl f cmd arg cur)
  with assms(1) show ?thesis
    by (simp add: exec_ioctl)
qed

lemma sessions_ok_run:
  "sessions_ok d fs \<Longrightarrow> disciplined evs (d, fs) \<Longrightarrow>
   sessions_ok (fst (run evs (d, fs))) (snd (run evs (d, fs)))"
proof (induction evs arbitrary: d fs)
  case Nil
  then show ?case by simp
next
  case (Cons e evs)
  from Cons.prems have "sessions_ok (snd (exec e d)) (track e (fst (exec e d)) fs)"
    by (simp add: sessions_ok_step)
  moreover from Cons.prems
  have "disciplined evs (snd (exec e d), track e (fst (exec e d)) fs)"
    by simp
  ultimately show ?case
    using Cons.IH by simp
qed

lemma disciplined_take:
  "disciplined evs (d, fs) \<Longrightarrow> disciplined (take n evs) (d, fs)"
proof (induction evs arbitrary: d fs n)
  case Nil
  then show ?case by simp
next
  case (Cons e evs)
  then show ?case by (cases n) simp_all
qed

text \<open>
  Claim C1 says that in every sequence of operations at most one session is outstanding.
  \<open>release\<close> does not look at the file it is called for: called for file 2 while file 1
  holds the lock, it frees the lock, and file 2 can then open the device while the
  session of file 1 has not been released.
\<close>
theorem two_sessions_counterexample:
  "snd (run [Open own_inode 1 task_a False, Release own_inode 2, Open own_inode 2 task_b False]
          (registered_dev, [])) = [2, 1]
   \<and> \<not> length (snd (run [Open own_inode 1 task_a False, Release own_inode 2,
                           Open own_inode 2 task_b False] (registered_dev, []))) \<le> 1"
  by (simp add: exec_open exec_release own_inode_matches)
    (simp add: registered_dev_def)

text \<open>
  Claim C1, amended. From a free lock, in every sequence of operations in which, while
  a session is outstanding, \<open>release\<close> is called only for the file of that session, at
  most one session is outstanding after every prefix, and one is outstanding exactly when
  the lock is held. In every state, an \<open>open\<close> that returns 0 found the lock free and
  leaves it held.
\<close>
theorem one_session_at_a_time:
  assumes "lock d = Unlocked" and "disciplined evs (d, [])"
  shows "length (snd (run (take n evs) (d, []))) \<le> 1
     \<and> (lock (fst (run (take n evs) (d, []))) = Locked)
         = (snd (run (take n evs) (d, [])) \<noteq> [])
     \<and> (\<forall>ino f cur sg d0 r. open_dev ino f cur sg d0 = Some r \<and> ret_of r = 0 \<longrightarrow>
           lock d0 = Unlocked \<and> lock (dev_of r) = Locked)"
proof -
  from assms(1) have "sessions_ok d []"
    by (simp add: sessions_ok_def)
  with assms(2) have "sessions_ok (fst (run (take n evs) (d, []))) (snd (run (take n evs) (d, [])))"
    by (simp add: sessions_ok_run disciplined_take)
  then have 1: "length (snd (run (take n evs) (d, []))) \<le> 1
     \<and> (lock (fst (run (take n evs) (d, []))) = Locked)
         = (snd (run (take n evs) (d, [])) \<noteq> [])"
    by (auto simp: sessions_ok_def split: if_splits)
  have 2: "lock d0 = Unlocked \<and> lock (dev_of r) = Locked"
    if "open_dev ino f cur sg d0 = Some r \<and> ret_of r = 0" for ino f cur sg d0 r
  proof (cases "identity_matches ino d0")
    case True
    with that show ?thesis
      by (auto simp: open_dev_match outcome_defs split: if_splits)
  next
    case False
    with that open_dev_mismatch [OF False, of f cur sg] show ?thesis
      by (auto simp: outcome_defs)
  qed
  from 1 2 show ?thesis by blast
qed

theorem one_session_at_a_time_witness:
  "lock registered_dev = Unlocked
   \<and> disciplined [Open own_inode 1 task_a False, Open own_inode 2 task_b True,
                  Release own_inode 1, Open own_inode 2 task_b False] (registered_dev, [])
   \<and> snd (run (take 2 [Open own_inode 1 task_a False, Open own_inode 2 task_b True,
                  Release own_inode 1, Open own_inode 2 task_b False]) (registered_dev, [])) = [1]
   \<and> snd (run (take 4 [Open own_inode 1 task_a False, Open own_inode 2 task_b True,
                  Release own_inode 1, Open own_inode 2 task_b False]) (registered_dev, [])) = [2]
   \<and> length (snd (run (take 2 [Open own_inode 1 task_a False, Open own_inode 2 task_b True,
                  Release own_inode 1, Open own_inode 2 task_b False]) (registered_dev, []))) \<le> 1
   \<and> length (snd (run (take 4 [Open own_inode 1 task_a False, Open own_inode 2 task_b True,
                  Release own_inode 1, Open own_inode 2 task_b False]) (registered_dev, []))) \<le> 1"
proof -
  have a: "lock registered_dev = Unlocked"
    by (simp add: registered_dev_def)
  have b: "disciplined [Open own_inode 1 task_a False, Open own_inode 2 task_b True,
                  Release own_inode 1, Open own_inode 2 task_b False] (registered_dev, [])"
    by (simp add: exec_open exec_release own_inode_matches)
  have c: "snd (run (take 2 [Open own_inode 1 task_a False, Open own_inode 2 task_b True,
                  Release own_inode 1, Open own_inode 2 task_b False]) (registered_dev, [])) = [1]"
    by (simp add: exec_open exec_release own_inode_matches a)
  have d: "snd (run (take 4 [Open own_inode 1 task_a False, Open own_inode 2 task_b True,
                  Release own_inode 1, Open own_inode 2 task_b False]) (registered_dev, [])) = [2]"
    by (simp add: exec_open exec_release own_inode_matches a)
  from a b c d one_session_at_a_time [OF a b, of 2] one_session_at_a_time [OF a b, of 4]
  show ?thesis by blast
qed

end
